theory Spec2Isabelle
  imports Complex_Main
begin

section \<open>Black hole visualisation: the numeric core\<close>

text \<open>
  The script computes a Schwarzschild radius from a mass and evaluates a brightness
  field over a coordinate grid. Python floats and numpy float64 cells are modelled as
  HOL reals: the theory verifies the formulas the code evaluates, not the rounding,
  overflow or underflow of IEEE-754 doubles. A decimal literal of the source such as
  \<open>6.67430e-11\<close> stands for that decimal number. Where a property of \<open>accretion_disk\<close>
  depends on the rounding, the float64 evaluation of the function is modelled as well
  (\<open>f64_accretion_disk\<close> below).
\<close>

subsection \<open>schwarzschild_radius\<close>

text \<open>
  The source:
  \<^verbatim>\<open>
  def schwarzschild_radius(M):
      G = 6.67430e-11
      c = 299792458
      M = M * 1.98847e30
      return 2 * G * M / c**2
  \<close>
  The function has no branch, no raise and no access to anything but its argument, so
  the model is a total function on the reals. The rebinding of \<open>M\<close> is the local \<open>M'\<close>.
\<close>

definition schwarzschild_radius :: "real \<Rightarrow> real" where
  "schwarzschild_radius M =
     (let G = 6.67430 / 10 ^ 11;
          c = 299792458;
          M' = M * (1.98847 * 10 ^ 30)
      in 2 * G * M' / c\<^sup>2)"

text \<open>
  The formula of the specification, in its own words: \<open>Rs = 2 \<sqdot> G \<sqdot> (M \<sqdot> Msun) / c\<^sup>2\<close> with
  the three fixed constants.
\<close>

definition spec_G :: real where
  "spec_G = 6.67430 / 10 ^ 11"

definition spec_c :: real where
  "spec_c = 299792458"

definition spec_Msun :: real where
  "spec_Msun = 1.98847 * 10 ^ 30"

definition RadiusCalculator_spec :: "real \<Rightarrow> real" where
  "RadiusCalculator_spec M = 2 * spec_G * (M * spec_Msun) / spec_c\<^sup>2"

subsection \<open>numpy arrays\<close>

text \<open>
  A coordinate grid is a two-dimensional numpy array of float64 cells; it is modelled as
  the list of its rows. numpy applies every arithmetic operator and every \<open>np.\<close> function
  of the source cell by cell. A unary operation keeps the shape; a binary operation on
  two arrays of one shape pairs the cells at equal positions.

  Two situations are outside what the reals can express, and the model marks them
  instead of computing a value there:
  \<^item> \<open>Shapes_differ\<close>: the operands of a binary operation have different shapes, where
    numpy either broadcasts or raises \<open>ValueError\<close> (broadcasting is not modelled);
  \<^item> \<open>Zero_radius\<close>: \<open>Rs = 0\<close>, where numpy's division by zero yields \<open>inf\<close> and \<open>nan\<close>
    cells (with a warning, not an exception), while a division by zero in HOL
    is \<open>0\<close>.
\<close>

type_synonym ndarray = "real list list"

datatype unmodelled = Shapes_differ | Zero_radius

text \<open>
  The shape of an array is given as the list of its row lengths. Two rectangular arrays
  have equal row lengths exactly when numpy's \<open>shape\<close>, the pair of the number of rows and
  the number of columns, is the same for both.
\<close>

definition shape_of :: "ndarray \<Rightarrow> nat list" where
  "shape_of a = map length a"

definition np_ufunc :: "(real \<Rightarrow> real) \<Rightarrow> ndarray \<Rightarrow> ndarray" where
  "np_ufunc f a = map (map f) a"

definition np_ufunc2 ::
  "(real \<Rightarrow> real \<Rightarrow> real) \<Rightarrow> ndarray \<Rightarrow> ndarray \<Rightarrow> unmodelled + ndarray" where
  "np_ufunc2 f a b =
     (if shape_of a = shape_of b then Inr (map2 (map2 f) a b) else Inl Shapes_differ)"

text \<open>
  The operations the source uses: \<open>x**2\<close>, unary minus, \<open>np.sqrt\<close>, \<open>np.exp\<close>,
  \<open>np.clip\<close> (numpy documents it as \<open>minimum(a_max, maximum(a, a_min))\<close>), and \<open>+\<close> and \<open>*\<close>
  between two arrays. An operation between an array and a scalar (\<open>r - Rs * 3\<close>,
  \<open>\<dots> / Rs\<close>, \<open>r / (5 * Rs)\<close>, \<open>1 - \<dots>\<close>) is \<open>np_ufunc\<close> at the corresponding function
  of one cell.
\<close>

definition np_square :: "ndarray \<Rightarrow> ndarray" where
  "np_square a = np_ufunc (\<lambda>v. v\<^sup>2) a"

definition np_negative :: "ndarray \<Rightarrow> ndarray" where
  "np_negative a = np_ufunc (\<lambda>v. - v) a"

definition np_sqrt :: "ndarray \<Rightarrow> ndarray" where
  "np_sqrt a = np_ufunc sqrt a"

definition np_exp :: "ndarray \<Rightarrow> ndarray" where
  "np_exp a = np_ufunc exp a"

definition np_clip :: "ndarray \<Rightarrow> real \<Rightarrow> real \<Rightarrow> ndarray" where
  "np_clip a a_min a_max = np_ufunc (\<lambda>v. min a_max (max v a_min)) a"

definition np_add :: "ndarray \<Rightarrow> ndarray \<Rightarrow> unmodelled + ndarray" where
  "np_add a b = np_ufunc2 (\<lambda>v w. v + w) a b"

definition np_multiply :: "ndarray \<Rightarrow> ndarray \<Rightarrow> unmodelled + ndarray" where
  "np_multiply a b = np_ufunc2 (\<lambda>v w. v * w) a b"

subsection \<open>accretion_disk\<close>

text \<open>
  The source:
  \<^verbatim>\<open>
  def accretion_disk(x, y, Rs):
      r = np.sqrt(x**2 + y**2)
      brightness = np.exp(-((r - Rs * 3) / Rs))
      color = np.clip(1 - r / (5 * Rs), 0, 1)
      return brightness * color
  \<close>
  The three locals are the definitions \<open>disk_r\<close>, \<open>disk_brightness\<close> and \<open>disk_color\<close>;
  \<open>accretion_disk\<close> is the returned product. \<open>disk_brightness\<close> and \<open>disk_color\<close> divide
  by \<open>Rs\<close> and \<open>5 * Rs\<close>: they stand for the source's arrays when \<open>Rs \<noteq> 0\<close>.
\<close>

definition disk_r :: "ndarray \<Rightarrow> ndarray \<Rightarrow> unmodelled + ndarray" where
  "disk_r x y =
     (case np_add (np_square x) (np_square y) of
        Inl e \<Rightarrow> Inl e
      | Inr s \<Rightarrow> Inr (np_sqrt s))"

definition disk_brightness :: "ndarray \<Rightarrow> real \<Rightarrow> ndarray" where
  "disk_brightness r Rs =
     np_exp (np_negative (np_ufunc (\<lambda>v. v / Rs) (np_ufunc (\<lambda>v. v - Rs * 3) r)))"

definition disk_color :: "ndarray \<Rightarrow> real \<Rightarrow> ndarray" where
  "disk_color r Rs =
     np_clip (np_ufunc (\<lambda>v. 1 - v) (np_ufunc (\<lambda>v. v / (5 * Rs)) r)) 0 1"

definition accretion_disk :: "ndarray \<Rightarrow> ndarray \<Rightarrow> real \<Rightarrow> unmodelled + ndarray" where
  "accretion_disk x y Rs =
     (if Rs = 0 then Inl Zero_radius
      else case disk_r x y of
             Inl e \<Rightarrow> Inl e
           | Inr r \<Rightarrow> np_multiply (disk_brightness r Rs) (disk_color r Rs))"

subsection \<open>accretion_disk in float64\<close>

text \<open>
  IEEE-754 binary64 arithmetic, for the properties that rounding decides. A double is a
  real of the form \<open>m \<sqdot> 2\<^sup>e\<^sup>-\<^sup>5\<^sup>2\<close> with an integer \<open>m\<close> of at most 53 bits and \<open>e \<ge> -1022\<close> (the
  subnormal numbers share the exponent \<open>-1022\<close>). \<open>f64\<close> rounds a real to the nearest
  double, ties to the even significand (\<open>rne\<close>), which is what the standard prescribes
  for \<open>+\<close>, \<open>-\<close>, \<open>*\<close>, \<open>/\<close> and \<open>sqrt\<close>. Magnitudes of \<open>2\<^sup>1\<^sup>0\<^sup>2\<^sup>4\<close> and more, which float64
  turns into \<open>inf\<close>, are not represented: the model is the code's arithmetic as long as
  no intermediate result overflows.
\<close>

definition rne :: "real \<Rightarrow> int" where
  "rne z =
     (let f = \<lfloor>z\<rfloor>; d = z - of_int f
      in if d < 1 / 2 then f else if 1 / 2 < d then f + 1 else if even f then f else f + 1)"

definition f64_exponent :: "real \<Rightarrow> int" where
  "f64_exponent a = max \<lfloor>log 2 a\<rfloor> (- 1022)"

definition f64 :: "real \<Rightarrow> real" where
  "f64 x =
     (let a = \<bar>x\<bar>; q = 2 powi (f64_exponent a - 52)
      in sgn x * (of_int (rne (a / q)) * q))"

text \<open>
  The source's \<open>accretion_disk\<close>, line by line, with every operation followed by its
  rounding. The arguments are meant to be doubles. \<open>x**2\<close> is one multiplication.
  \<open>np.exp\<close> is taken as the correctly rounded exponential; numpy's \<open>exp\<close> is accurate to
  about one unit in the last place without a promise of correct rounding, and the
  statements below that depend on it say how much room they leave.
\<close>

definition f64_disk_r :: "ndarray \<Rightarrow> ndarray \<Rightarrow> unmodelled + ndarray" where
  "f64_disk_r x y =
     (case np_ufunc2 (\<lambda>v w. f64 (v + w)) (np_ufunc (\<lambda>v. f64 (v * v)) x)
             (np_ufunc (\<lambda>v. f64 (v * v)) y) of
        Inl e \<Rightarrow> Inl e
      | Inr s \<Rightarrow> Inr (np_ufunc (\<lambda>v. f64 (sqrt v)) s))"

definition f64_disk_brightness :: "ndarray \<Rightarrow> real \<Rightarrow> ndarray" where
  "f64_disk_brightness r Rs =
     np_ufunc (\<lambda>v. f64 (exp v))
       (np_negative (np_ufunc (\<lambda>v. f64 (v / Rs)) (np_ufunc (\<lambda>v. f64 (v - f64 (Rs * 3))) r)))"

definition f64_disk_color :: "ndarray \<Rightarrow> real \<Rightarrow> ndarray" where
  "f64_disk_color r Rs =
     np_clip (np_ufunc (\<lambda>v. f64 (1 - v)) (np_ufunc (\<lambda>v. f64 (v / f64 (5 * Rs))) r)) 0 1"

definition f64_accretion_disk :: "ndarray \<Rightarrow> ndarray \<Rightarrow> real \<Rightarrow> unmodelled + ndarray" where
  "f64_accretion_disk x y Rs =
     (if Rs = 0 then Inl Zero_radius
      else case f64_disk_r x y of
             Inl e \<Rightarrow> Inl e
           | Inr r \<Rightarrow> np_ufunc2 (\<lambda>v w. f64 (v * w)) (f64_disk_brightness r Rs)
                        (f64_disk_color r Rs))"

text \<open>
  The float64 value of one cell with coordinates \<open>a\<close> and \<open>b\<close>: the composition of the
  operations of \<open>f64_disk_r\<close>, \<open>f64_disk_brightness\<close>, \<open>f64_disk_color\<close> and the final
  product.
\<close>

definition f64_cell :: "real \<Rightarrow> real \<Rightarrow> real \<Rightarrow> real" where
  "f64_cell Rs a b =
     (let r = f64 (sqrt (f64 (f64 (a * a) + f64 (b * b))))
      in f64 (f64 (exp (- f64 (f64 (r - f64 (Rs * 3)) / Rs))) *
              min 1 (max (f64 (1 - f64 (r / f64 (5 * Rs)))) 0)))"

subsection \<open>Properties of schwarzschild_radius\<close>

text \<open>
  C2: for every mass \<open>M\<close> (in particular every positive one) the code returns exactly
  \<open>2 \<sqdot> G \<sqdot> (M \<sqdot> Msun) / c\<^sup>2\<close> with \<open>G = 6.67430e-11\<close>, \<open>c = 299792458\<close> and
  \<open>Msun = 1.98847e30\<close>. The result depends on the argument alone: the model is a
  function of \<open>M\<close> and of nothing else.
\<close>

theorem schwarzschild_radius_refines_spec:
  "schwarzschild_radius M = RadiusCalculator_spec M"
  by (simp add: schwarzschild_radius_def RadiusCalculator_spec_def
      spec_G_def spec_c_def spec_Msun_def Let_def)

text \<open>
  C3: for a mass of 10 solar masses the radius is 29,539 meters up to a relative
  tolerance of \<open>10\<^sup>-\<^sup>3\<close>. (The exact value of the formula is
  \<open>663582266050000000000 / 22468879468420441\<close>, about 29533.4.)
\<close>

theorem schwarzschild_radius_10:
  "\<bar>schwarzschild_radius 10 - 29539\<bar> \<le> 1 / 10 ^ 3 * 29539"
  by (simp add: schwarzschild_radius_def Let_def)

text \<open>
  C4: a positive mass gives a positive radius, and doubling the mass doubles the
  radius.
\<close>

theorem schwarzschild_radius_pos_linear:
  "0 < M \<Longrightarrow>
     0 < schwarzschild_radius M \<and>
     schwarzschild_radius (2 * M) = 2 * schwarzschild_radius M"
  by (simp add: schwarzschild_radius_def Let_def)

theorem schwarzschild_radius_pos_linear_witness:
  "(0::real) < 10 \<and> 0 < schwarzschild_radius 10 \<and>
   schwarzschild_radius (2 * 10) = 2 * schwarzschild_radius 10"
  using schwarzschild_radius_pos_linear [of 10] by simp

text \<open>
  C8: there is no check on the mass. For every \<open>M\<close>, also a non-positive one, the code
  returns the value of the formula; a mass \<open>M \<le> 0\<close> therefore comes back as a radius
  \<open>\<le> 0\<close> (strictly negative for \<open>M < 0\<close>), with no error.
\<close>

theorem schwarzschild_radius_unchecked:
  "schwarzschild_radius M =
     2 * (6.67430 / 10 ^ 11) * (M * (1.98847 * 10 ^ 30)) / 299792458\<^sup>2 \<and>
   (M \<le> 0 \<longrightarrow> schwarzschild_radius M \<le> 0) \<and>
   (M < 0 \<longrightarrow> schwarzschild_radius M < 0)"
  by (simp add: schwarzschild_radius_def Let_def mult_le_0_iff divide_le_0_iff
      mult_less_0_iff divide_less_0_iff)

theorem schwarzschild_radius_unchecked_witness:
  "(- 1 :: real) \<le> 0 \<and> (- 1 :: real) < 0 \<and>
   schwarzschild_radius (- 1) =
     2 * (6.67430 / 10 ^ 11) * (- 1 * (1.98847 * 10 ^ 30)) / 299792458\<^sup>2 \<and>
   schwarzschild_radius (- 1) \<le> 0 \<and> schwarzschild_radius (- 1) < 0"
  using schwarzschild_radius_unchecked [of "- 1"] by simp

subsection \<open>Cell-wise form of the array operations\<close>

lemma shape_of_np_ufunc: "shape_of (np_ufunc f a) = shape_of a"
  by (simp add: shape_of_def np_ufunc_def comp_def)

lemma np_ufunc_nth:
  "i < length a \<Longrightarrow> j < length (a ! i) \<Longrightarrow> np_ufunc f a ! i ! j = f (a ! i ! j)"
  by (simp add: np_ufunc_def)

lemma np_ufunc_comp: "np_ufunc f (np_ufunc g a) = np_ufunc (\<lambda>v. f (g v)) a"
  by (simp add: np_ufunc_def comp_def)

lemma shape_of_eq_length: "shape_of a = shape_of b \<Longrightarrow> length a = length b"
  unfolding shape_of_def by (rule map_eq_imp_length_eq)

lemma shape_of_eq_row:
  "shape_of a = shape_of b \<Longrightarrow> i < length a \<Longrightarrow> length (a ! i) = length (b ! i)"
  unfolding shape_of_def
  by (metis length_map nth_map)

lemma shape_of_map2:
  "shape_of a = shape_of b \<Longrightarrow> shape_of (map2 (map2 f) a b) = shape_of a"
proof (induction a arbitrary: b)
  case Nil
  then show ?case by (simp add: shape_of_def)
next
  case (Cons r a)
  then show ?case by (cases b) (auto simp: shape_of_def)
qed

lemma map2_nth:
  "shape_of a = shape_of b \<Longrightarrow> i < length a \<Longrightarrow> j < length (a ! i) \<Longrightarrow>
   map2 (map2 f) a b ! i ! j = f (a ! i ! j) (b ! i ! j)"
  using shape_of_eq_length [of a b] shape_of_eq_row [of a b i] by simp

lemma map2_cells:
  "row \<in> set (map2 (map2 f) a b) \<Longrightarrow> v \<in> set row \<Longrightarrow> \<exists>p q. v = f p q"
  by (fastforce simp: set_zip)

lemmas np_defs =
  np_square_def np_negative_def np_sqrt_def np_exp_def np_clip_def np_add_def np_multiply_def

lemma map2_np_ufunc:
  "map2 (map2 f) (np_ufunc g a) (np_ufunc h b) = map2 (map2 (\<lambda>p q. f (g p) (h q))) a b"
proof (induction a arbitrary: b)
  case Nil
  then show ?case by (simp add: np_ufunc_def)
next
  case (Cons r a)
  have row: "map2 f (map g r) (map h s) = map2 (\<lambda>p q. f (g p) (h q)) r s" for s
    by (simp add: zip_map_map split_def comp_def)
  from Cons show ?case
    by (cases b) (simp_all add: np_ufunc_def row)
qed

lemma np_ufunc_map2:
  "np_ufunc g (map2 (map2 f) a b) = map2 (map2 (\<lambda>p q. g (f p q))) a b"
  by (simp add: np_ufunc_def split_def comp_def)

lemma disk_r_eq:
  "shape_of x = shape_of y \<Longrightarrow>
   disk_r x y = Inr (map2 (map2 (\<lambda>a b. sqrt (a\<^sup>2 + b\<^sup>2))) x y)"
  by (simp add: disk_r_def np_defs np_ufunc2_def shape_of_np_ufunc map2_np_ufunc np_ufunc_map2)

lemma disk_brightness_eq:
  "disk_brightness r Rs = np_ufunc (\<lambda>v. exp (- ((v - Rs * 3) / Rs))) r"
  by (simp add: disk_brightness_def np_defs np_ufunc_comp)

lemma disk_color_eq:
  "disk_color r Rs = np_ufunc (\<lambda>v. min 1 (max (1 - v / (5 * Rs)) 0)) r"
  by (simp add: disk_color_def np_defs np_ufunc_comp)

lemma np_ufunc_pair:
  "map2 (map2 f) (np_ufunc g a) (np_ufunc h a) = np_ufunc (\<lambda>v. f (g v) (h v)) a"
proof -
  have row: "map2 f (map g r) (map h r) = map (\<lambda>v. f (g v) (h v)) r" for r
    by (simp add: zip_map_map zip_same_conv_map comp_def)
  show ?thesis
    by (simp add: np_ufunc_def zip_map_map zip_same_conv_map comp_def row)
qed

lemma accretion_disk_eq:
  "shape_of x = shape_of y \<Longrightarrow> Rs \<noteq> 0 \<Longrightarrow>
   accretion_disk x y Rs =
     Inr (map2 (map2 (\<lambda>a b. exp (- ((sqrt (a\<^sup>2 + b\<^sup>2) - Rs * 3) / Rs)) *
                             min 1 (max (1 - sqrt (a\<^sup>2 + b\<^sup>2) / (5 * Rs)) 0))) x y)"
proof -
  assume shp: "shape_of x = shape_of y" and nz: "Rs \<noteq> 0"
  define r where "r = map2 (map2 (\<lambda>a b. sqrt (a\<^sup>2 + b\<^sup>2))) x y"
  have "accretion_disk x y Rs = np_multiply (disk_brightness r Rs) (disk_color r Rs)"
    using nz by (simp add: accretion_disk_def disk_r_eq [OF shp] r_def)
  also have "\<dots> = Inr (np_ufunc (\<lambda>v. exp (- ((v - Rs * 3) / Rs)) *
                                   min 1 (max (1 - v / (5 * Rs)) 0)) r)"
    by (simp add: disk_brightness_eq disk_color_eq np_multiply_def np_ufunc2_def
        shape_of_np_ufunc np_ufunc_pair)
  finally show ?thesis
    by (simp add: r_def np_ufunc_map2)
qed

lemma brightness_cell_mono:
  "0 < Rs \<Longrightarrow> v \<le> w \<Longrightarrow> exp (- ((w - Rs * 3) / Rs)) \<le> exp (- ((v - Rs * 3) / (Rs::real)))"
  by (simp add: divide_right_mono)

lemma brightness_cell_le:
  "0 < Rs \<Longrightarrow> 0 \<le> v \<Longrightarrow> exp (- ((v - Rs * 3) / Rs)) \<le> exp (3::real)"
  by (simp add: field_simps)

lemma color_cell_zero:
  "0 < Rs \<Longrightarrow> 5 * Rs \<le> v \<Longrightarrow> min 1 (max (1 - v / (5 * Rs)) 0) = (0::real)"
  by (simp add: field_simps)

lemmas eval_defs =
  accretion_disk_def disk_r_def disk_brightness_def disk_color_def np_defs
  np_ufunc2_def np_ufunc_def shape_of_def

subsection \<open>Rounding to float64\<close>

lemma f64_0: "f64 0 = 0"
  by (simp add: f64_def)

lemma f64_minus: "f64 (- x) = - f64 x"
  by (simp add: f64_def Let_def)

lemma f64_exponent_binade:
  assumes "2 ^ k \<le> a" "a < 2 ^ (k + 1)"
  shows "f64_exponent a = int k"
proof -
  have pos: "0 < a"
    using assms(1) by (meson less_le_trans zero_less_numeral zero_less_power)
  have "\<lfloor>log 2 a\<rfloor> = int k"
    using assms pos by (simp add: floor_log_eq_powr_iff powr_realpow powr_add)
  then show ?thesis by (simp add: f64_exponent_def)
qed

lemma f64_binade:
  assumes "2 ^ k \<le> a" "a < 2 ^ (k + 1)" "k \<le> 52"
  shows "f64 a = of_int (rne (a * 2 ^ (52 - k))) / 2 ^ (52 - k)"
proof -
  have pos: "0 < a"
    using assms(1) by (meson less_le_trans zero_less_numeral zero_less_power)
  have n: "nat (52 - int k) = 52 - k"
    using assms(3) by linarith
  have q: "(2::real) powi (int k - 52) = 1 / 2 ^ (52 - k)"
    using assms(3) by (simp add: power_int_def n field_simps)
  show ?thesis
    using pos by (simp add: f64_def Let_def f64_exponent_binade [OF assms(1,2)] q)
qed

lemma f64_1: "f64 1 = 1"
  using f64_binade [of 0 1] by (simp add: rne_def Let_def)

lemma rne_of_int: "rne (of_int n) = n"
  by (simp add: rne_def)

lemma rne_bounds: "of_int (rne z) \<le> z + 1 / 2 \<and> z - 1 / 2 \<le> of_int (rne z)"
  unfolding rne_def Let_def by (auto; linarith)

lemma rne_ge_floor: "\<lfloor>z\<rfloor> \<le> rne z"
  by (simp add: rne_def Let_def)

lemma rne_le_floor_plus_1: "rne z \<le> \<lfloor>z\<rfloor> + 1"
  by (simp add: rne_def Let_def)

lemma rne_mono: "z \<le> w \<Longrightarrow> rne z \<le> rne w"
proof -
  assume zw: "z \<le> w"
  have "\<lfloor>z\<rfloor> \<le> \<lfloor>w\<rfloor>"
    using zw by (rule floor_mono)
  then consider "\<lfloor>z\<rfloor> = \<lfloor>w\<rfloor>" | "\<lfloor>z\<rfloor> + 1 \<le> \<lfloor>w\<rfloor>"
    by linarith
  then show ?thesis
  proof cases
    case 1
    then show ?thesis
      using zw unfolding rne_def Let_def by auto
  next
    case 2
    then show ?thesis
      using rne_le_floor_plus_1 [of z] rne_ge_floor [of w] by linarith
  qed
qed

lemma rne_le_int: "z \<le> of_int n \<Longrightarrow> rne z \<le> n"
  using rne_mono [of z "of_int n"] by (simp add: rne_of_int)

lemma rne_ge_int: "of_int n \<le> z \<Longrightarrow> n \<le> rne z"
  using rne_mono [of "of_int n" z] by (simp add: rne_of_int)

lemma f64_pos:
  "0 < a \<Longrightarrow> f64 a = of_int (rne (a / 2 powi (f64_exponent a - 52))) * 2 powi (f64_exponent a - 52)"
  by (simp add: f64_def Let_def)

lemma f64_nonneg: "0 \<le> x \<Longrightarrow> 0 \<le> f64 x"
proof -
  assume x: "0 \<le> x"
  have "0 \<le> x / 2 powi (f64_exponent \<bar>x\<bar> - 52)"
    using x by simp
  then have "0 \<le> rne (\<bar>x\<bar> / 2 powi (f64_exponent \<bar>x\<bar> - 52))"
    using x rne_ge_int [of 0] by simp
  then show ?thesis
    using x by (simp add: f64_def Let_def sgn_if)
qed

lemma two_powr_int: "(2::real) powr real_of_int n = 2 powi n"
  by (rule powr_real_of_int') simp_all

lemma two_powi_split:
  "(2::real) powi (e + int k) = 2 ^ k * 2 powi e"
proof -
  have "(2::real) powi (int k + e) = 2 powi (int k) * 2 powi e"
    by (rule power_int_add) simp
  then show ?thesis
    by (simp add: add.commute)
qed

lemma below_next_binade:
  assumes "0 < a"
  shows "a < 2 powi (f64_exponent a + 1)"
proof -
  have "a < 2 powr (of_int (\<lfloor>log 2 a\<rfloor> + 1))"
    using floor_log_eq_powr_iff [of a 2 "\<lfloor>log 2 a\<rfloor>"] assms by simp
  then have "a < 2 powi (\<lfloor>log 2 a\<rfloor> + 1)"
    by (simp only: two_powr_int)
  also have "\<dots> \<le> 2 powi (f64_exponent a + 1)"
    by (rule power_int_increasing) (simp_all add: f64_exponent_def)
  finally show ?thesis .
qed

lemma above_binade:
  assumes "0 < a" "- 1022 < f64_exponent a"
  shows "2 powi (f64_exponent a) \<le> a"
proof -
  have e: "f64_exponent a = \<lfloor>log 2 a\<rfloor>"
    using assms(2) by (simp add: f64_exponent_def max_def split: if_splits)
  have "2 powr (of_int \<lfloor>log 2 a\<rfloor>) \<le> a"
    using floor_log_eq_powr_iff [of a 2 "\<lfloor>log 2 a\<rfloor>"] assms(1) by simp
  then show ?thesis
    by (simp only: e two_powr_int)
qed

lemma f64_exponent_mono:
  assumes "0 < a" "a \<le> b"
  shows "f64_exponent a \<le> f64_exponent b"
proof -
  have "log 2 a \<le> log 2 b"
    using assms by simp
  then have "\<lfloor>log 2 a\<rfloor> \<le> \<lfloor>log 2 b\<rfloor>"
    by (rule floor_mono)
  then show ?thesis
    by (simp add: f64_exponent_def)
qed

lemma f64_le_next_binade:
  assumes "0 < a"
  shows "f64 a \<le> 2 powi (f64_exponent a + 1)"
proof -
  define e where "e = f64_exponent a"
  define q :: real where "q = 2 powi (e - 52)"
  have q: "0 < q"
    by (simp add: q_def)
  have "e + 1 = (e - 52) + int 53"
    by simp
  then have split: "(2::real) powi (e + 1) = 2 ^ 53 * q"
    unfolding q_def by (simp only: two_powi_split)
  have "a / q \<le> 2 ^ 53"
    using below_next_binade [OF assms] q unfolding e_def [symmetric] split
    by (simp add: field_simps)
  then have "a / q \<le> of_int (2 ^ 53)"
    by simp
  then have "rne (a / q) \<le> 2 ^ 53"
    by (rule rne_le_int)
  then have "real_of_int (rne (a / q)) \<le> real_of_int (2 ^ 53)"
    by (simp only: of_int_le_iff)
  then have "of_int (rne (a / q)) * q \<le> 2 ^ 53 * q"
    using q by (intro mult_right_mono) simp_all
  then show ?thesis
    unfolding f64_pos [OF assms] e_def [symmetric] q_def [symmetric] split .
qed

lemma f64_ge_binade:
  assumes "0 < a" "- 1022 < f64_exponent a"
  shows "2 powi (f64_exponent a) \<le> f64 a"
proof -
  define e where "e = f64_exponent a"
  define q :: real where "q = 2 powi (e - 52)"
  have q: "0 < q"
    by (simp add: q_def)
  have "e = (e - 52) + int 52"
    by simp
  then have split: "(2::real) powi e = 2 ^ 52 * q"
    unfolding q_def by (metis two_powi_split)
  have "2 ^ 52 \<le> a / q"
    using above_binade [OF assms] q unfolding e_def [symmetric] split
    by (simp add: field_simps)
  then have "of_int (2 ^ 52) \<le> a / q"
    by simp
  then have "2 ^ 52 \<le> rne (a / q)"
    by (rule rne_ge_int)
  then have "real_of_int (2 ^ 52) \<le> real_of_int (rne (a / q))"
    by (simp only: of_int_le_iff)
  then have "2 ^ 52 * q \<le> of_int (rne (a / q)) * q"
    using q by (intro mult_right_mono) simp_all
  then show ?thesis
    unfolding f64_pos [OF assms(1)] e_def [symmetric] q_def [symmetric] split .
qed

lemma f64_mono_pos:
  assumes "0 < a" "a \<le> b"
  shows "f64 a \<le> f64 b"
proof -
  have b: "0 < b"
    using assms by linarith
  have le: "f64_exponent a \<le> f64_exponent b"
    using assms by (rule f64_exponent_mono)
  show ?thesis
  proof (cases "f64_exponent a = f64_exponent b")
    case True
    define q :: real where "q = 2 powi (f64_exponent b - 52)"
    have q: "0 < q"
      by (simp add: q_def)
    have "a / q \<le> b / q"
      using assms(2) q by (simp add: divide_right_mono)
    then have "rne (a / q) \<le> rne (b / q)"
      by (rule rne_mono)
    then have "real_of_int (rne (a / q)) \<le> real_of_int (rne (b / q))"
      by (simp only: of_int_le_iff)
    then have "of_int (rne (a / q)) * q \<le> of_int (rne (b / q)) * q"
      using q by (intro mult_right_mono) simp_all
    then show ?thesis
      unfolding f64_pos [OF assms(1)] f64_pos [OF b] True q_def [symmetric] .
  next
    case False
    then have lt: "f64_exponent a + 1 \<le> f64_exponent b"
      using le by linarith
    have "- 1022 \<le> f64_exponent a"
      by (simp add: f64_exponent_def)
    then have unclamped: "- 1022 < f64_exponent b"
      using lt by linarith
    have "f64 a \<le> 2 powi (f64_exponent a + 1)"
      using assms(1) by (rule f64_le_next_binade)
    also have "\<dots> \<le> 2 powi (f64_exponent b)"
      using lt by (rule power_int_increasing) simp
    also have "\<dots> \<le> f64 b"
      using b unclamped by (rule f64_ge_binade)
    finally show ?thesis .
  qed
qed

lemma f64_mono: "x \<le> y \<Longrightarrow> f64 x \<le> f64 y"
proof -
  assume xy: "x \<le> y"
  consider "0 < x" | "x \<le> 0" "0 \<le> y" | "y < 0"
    using xy by linarith
  then show ?thesis
  proof cases
    case 1
    then show ?thesis using xy by (rule f64_mono_pos)
  next
    case 2
    have "0 \<le> f64 (- x)"
      using 2(1) by (intro f64_nonneg) simp
    then have "f64 x \<le> 0"
      by (simp add: f64_minus)
    moreover have "0 \<le> f64 y"
      using 2(2) by (rule f64_nonneg)
    ultimately show ?thesis by linarith
  next
    case 3
    have "f64 (- y) \<le> f64 (- x)"
      using 3 xy by (intro f64_mono_pos) simp_all
    then show ?thesis
      by (simp add: f64_minus)
  qed
qed

subsection \<open>Cell-wise form of the float64 evaluation\<close>

lemma f64_disk_r_eq:
  "shape_of x = shape_of y \<Longrightarrow>
   f64_disk_r x y = Inr (map2 (map2 (\<lambda>a b. f64 (sqrt (f64 (f64 (a * a) + f64 (b * b)))))) x y)"
  by (simp add: f64_disk_r_def np_ufunc2_def shape_of_np_ufunc map2_np_ufunc np_ufunc_map2)

lemma f64_accretion_disk_eq:
  assumes "shape_of x = shape_of y" "Rs \<noteq> 0"
  shows "f64_accretion_disk x y Rs = Inr (map2 (map2 (f64_cell Rs)) x y)"
proof -
  define r where "r = map2 (map2 (\<lambda>a b. f64 (sqrt (f64 (f64 (a * a) + f64 (b * b)))))) x y"
  have b: "f64_disk_brightness r Rs =
      np_ufunc (\<lambda>v. f64 (exp (- f64 (f64 (v - f64 (Rs * 3)) / Rs)))) r"
    by (simp add: f64_disk_brightness_def np_negative_def np_ufunc_comp)
  have c: "f64_disk_color r Rs =
      np_ufunc (\<lambda>v. min 1 (max (f64 (1 - f64 (v / f64 (5 * Rs)))) 0)) r"
    by (simp add: f64_disk_color_def np_clip_def np_ufunc_comp)
  have "f64_accretion_disk x y Rs =
      np_ufunc2 (\<lambda>v w. f64 (v * w)) (f64_disk_brightness r Rs) (f64_disk_color r Rs)"
    using assms(2) by (simp add: f64_accretion_disk_def f64_disk_r_eq [OF assms(1)] r_def)
  also have "\<dots> = Inr (np_ufunc (\<lambda>v. f64 (f64 (exp (- f64 (f64 (v - f64 (Rs * 3)) / Rs))) *
                                   min 1 (max (f64 (1 - f64 (v / f64 (5 * Rs)))) 0))) r)"
    by (simp add: b c np_ufunc2_def shape_of_np_ufunc np_ufunc_pair)
  finally show ?thesis
    by (simp add: r_def np_ufunc_map2 f64_cell_def [abs_def] Let_def)
qed

lemma f64_cell_origin:
  "f64_cell Rs 0 0 = f64 (f64 (exp (- f64 (f64 (0 - f64 (Rs * 3)) / Rs))))"
  by (simp add: f64_cell_def f64_0 f64_1)

lemma f64_cell_bounds:
  assumes "0 < Rs"
  shows "0 \<le> f64_cell Rs a b \<and> f64_cell Rs a b \<le> f64_cell Rs 0 0"
proof -
  define r where "r = f64 (sqrt (f64 (f64 (a * a) + f64 (b * b))))"
  define c where "c = f64 (Rs * 3)"
  define B where "B = f64 (exp (- f64 (f64 (r - c) / Rs)))"
  define B0 where "B0 = f64 (exp (- f64 (f64 (0 - c) / Rs)))"
  define C where "C = min 1 (max (f64 (1 - f64 (r / f64 (5 * Rs)))) 0)"
  have r: "0 \<le> r"
    unfolding r_def by (intro f64_nonneg real_sqrt_ge_zero add_nonneg_nonneg) simp_all
  have "f64 (0 - c) \<le> f64 (r - c)"
    using r by (intro f64_mono) simp
  then have "f64 (0 - c) / Rs \<le> f64 (r - c) / Rs"
    using assms by (simp add: divide_right_mono)
  then have "f64 (f64 (0 - c) / Rs) \<le> f64 (f64 (r - c) / Rs)"
    by (rule f64_mono)
  then have "exp (- f64 (f64 (r - c) / Rs)) \<le> exp (- f64 (f64 (0 - c) / Rs))"
    by simp
  then have B: "B \<le> B0"
    unfolding B_def B0_def by (rule f64_mono)
  have B_nonneg: "0 \<le> B"
    unfolding B_def by (intro f64_nonneg) simp
  have C: "0 \<le> C" "C \<le> 1"
    by (simp_all add: C_def)
  have "B * C \<le> B * 1"
    using B_nonneg C(2) by (intro mult_left_mono)
  then have "B * C \<le> B0"
    using B by simp
  then have up: "f64 (B * C) \<le> f64 B0"
    by (rule f64_mono)
  have lo: "0 \<le> f64 (B * C)"
    using B_nonneg C(1) by (intro f64_nonneg mult_nonneg_nonneg)
  have cell: "f64_cell Rs a b = f64 (B * C)"
    by (simp add: f64_cell_def Let_def r_def c_def B_def C_def)
  have origin: "f64_cell Rs 0 0 = f64 B0"
    by (simp add: f64_cell_origin B0_def c_def)
  show ?thesis
    using lo up by (simp add: cell origin)
qed

subsection \<open>The origin cell in float64 for the radius 6.4\<close>

text \<open>
  The double nearest to \<open>6.4\<close> is \<open>7205759403792794 / 2\<^sup>5\<^sup>0\<close>. Three times it falls halfway
  between two doubles and is rounded to the even one, \<open>5404319552844596 / 2\<^sup>4\<^sup>8\<close>, which is
  above the exact product; divided by the radius again this gives \<open>3 + 2\<^sup>-\<^sup>5\<^sup>1\<close>, not \<open>3\<close>.
\<close>

lemma f64_6_4: "f64 (64 / 10) = 7205759403792794 / 2 ^ 50"
  using f64_binade [of 2 "64 / 10"] by (simp add: rne_def Let_def)

lemma f64_Rs_times_3: "f64 (7205759403792794 / 2 ^ 50 * 3) = 5404319552844596 / 2 ^ 48"
  using f64_binade [of 4 "7205759403792794 / 2 ^ 50 * 3"] by (simp add: rne_def Let_def)

lemma f64_Rs3_exact: "f64 (5404319552844596 / 2 ^ 48) = 5404319552844596 / 2 ^ 48"
  using f64_binade [of 4 "5404319552844596 / 2 ^ 48"] by (simp add: rne_def Let_def)

lemma f64_quotient:
  "f64 ((5404319552844596 / 2 ^ 48) / (7205759403792794 / 2 ^ 50)) = 3 + 1 / 2 ^ 51"
  using f64_binade [of 1 "(5404319552844596 / 2 ^ 48) / (7205759403792794 / 2 ^ 50)"]
  by (simp add: rne_def Let_def)

lemma f64_5_Rs: "f64 (5 * (7205759403792794 / 2 ^ 50)) = 32"
  using f64_binade [of 5 "5 * (7205759403792794 / 2 ^ 50)"] by (simp add: rne_def Let_def)

lemma exp_3_gt_17: "17 < exp (3::real)"
proof -
  have "(65 / 32 :: real) \<le> exp (3 / 4)"
    using exp_lower_Taylor_quadratic [of "3 / 4 :: real"] by (simp add: power2_eq_square)
  then have "(65 / 32 :: real) ^ 4 \<le> exp (3 / 4) ^ 4"
    by (intro power_mono) simp_all
  moreover have "exp (3 / 4 :: real) ^ 4 = exp 3"
    using exp_of_nat_mult [of 4 "3 / 4 :: real"] by simp
  moreover have "(17::real) < (65 / 32) ^ 4"
    by (simp add: power4_eq_xxxx)
  ultimately show ?thesis by linarith
qed

lemma exp_3_le_27: "exp (3::real) \<le> 27"
proof -
  have "exp (1::real) ^ 3 \<le> 3 ^ 3"
    using exp_le by (intro power_mono) simp_all
  moreover have "exp (1::real) ^ 3 = exp 3"
    using exp_of_nat_mult [of 3 "1::real"] by simp
  ultimately show ?thesis by simp
qed

lemma exp_add_lower: "exp x + exp x * d \<le> exp (x + d)" for x d :: real
proof -
  have "exp x * (1 + d) \<le> exp x * exp d"
    by (intro mult_left_mono) simp_all
  then show ?thesis
    by (simp add: exp_add algebra_simps)
qed

lemma exp_add_upper:
  fixes x d :: real
  assumes "0 \<le> d" "d \<le> 1"
  shows "exp (x + d) \<le> exp x * (1 + d + d\<^sup>2)"
proof -
  have "exp x * exp d \<le> exp x * (1 + d + d\<^sup>2)"
    using exp_bound [OF assms] by (intro mult_left_mono) simp_all
  then show ?thesis
    by (simp add: exp_add)
qed

lemma exp_origin_bounds:
  "exp 3 + exp 3 / 2 ^ 51 \<le> exp (3 + 1 / 2 ^ 51 :: real)"
  "exp (3 + 1 / 2 ^ 51 :: real) \<le> 28"
proof -
  define d :: real where "d = 1 / 2 ^ 51"
  define t :: real where "t = exp 3"
  have d: "0 \<le> d" "d \<le> 1" "1 + d + d\<^sup>2 \<le> 28 / 27"
    by (simp_all add: d_def power2_eq_square)
  have "t + t * d \<le> exp (3 + d)"
    unfolding t_def by (rule exp_add_lower)
  then show "exp 3 + exp 3 / 2 ^ 51 \<le> exp (3 + 1 / 2 ^ 51 :: real)"
    unfolding t_def d_def by (simp only: times_divide_eq_right mult_1_right)
  have t: "0 \<le> t" "t \<le> 27"
    unfolding t_def using exp_3_le_27 by simp_all
  have "exp (3 + d) \<le> t * (1 + d + d\<^sup>2)"
    unfolding t_def using d(1,2) by (rule exp_add_upper)
  also have "\<dots> \<le> 27 * (28 / 27)"
  proof (rule mult_mono)
    show "t \<le> 27" by (rule t(2))
    show "1 + d + d\<^sup>2 \<le> 28 / 27" by (rule d(3))
    show "(0::real) \<le> 27" by simp
    show "0 \<le> 1 + d + d\<^sup>2" using d(1) by (simp add: add_nonneg_nonneg)
  qed
  finally have "exp (3 + d) \<le> 28"
    by simp
  then show "exp (3 + 1 / 2 ^ 51 :: real) \<le> 28"
    unfolding d_def .
qed

lemma f64_binade4:
  assumes "16 \<le> y" "y < 32"
  shows "f64 y = of_int (rne (y * 2 ^ 48)) / 2 ^ 48"
  using f64_binade [of 4 y] assms by simp

lemma f64_binade4_near:
  assumes "16 \<le> y" "y < 32"
  shows "y - 1 / 2 ^ 49 \<le> f64 y"
proof -
  have "y * 2 ^ 48 - 1 / 2 \<le> of_int (rne (y * 2 ^ 48))"
    using rne_bounds [of "y * 2 ^ 48"] by simp
  then have "(y * 2 ^ 48 - 1 / 2) / 2 ^ 48 \<le> of_int (rne (y * 2 ^ 48)) / 2 ^ 48"
    by (rule divide_right_mono) simp
  then show ?thesis
    unfolding f64_binade4 [OF assms] by (simp add: field_simps)
qed

lemma f64_binade4_idem:
  assumes "16 \<le> y" "y \<le> 28"
  shows "f64 (f64 y) = f64 y"
proof -
  define n where "n = rne (y * 2 ^ 48)"
  have y: "f64 y = of_int n / 2 ^ 48"
    using f64_binade4 [of y] assms by (simp add: n_def)
  have "(2::real) ^ 52 \<le> y * 2 ^ 48"
    using assms(1) by simp
  then have "(2::int) ^ 52 \<le> \<lfloor>y * 2 ^ 48\<rfloor>"
    by (simp add: le_floor_iff)
  then have lo: "2 ^ 52 \<le> n"
    using rne_ge_floor [of "y * 2 ^ 48"] unfolding n_def by linarith
  have "of_int n \<le> y * 2 ^ 48 + 1 / 2"
    using rne_bounds [of "y * 2 ^ 48"] by (simp add: n_def)
  also have "\<dots> \<le> 28 * 2 ^ 48 + 1 / 2"
    using assms(2) by simp
  also have "\<dots> < 2 ^ 53"
    by simp
  finally have "real_of_int n < real_of_int (2 ^ 53)"
    by simp
  then have hi: "n < 2 ^ 53"
    by (simp only: of_int_less_iff)
  have lo': "(16::real) \<le> of_int n / 2 ^ 48"
  proof -
    have "real_of_int (2 ^ 52) \<le> real_of_int n"
      using lo by (simp only: of_int_le_iff)
    then show ?thesis by simp
  qed
  have hi': "of_int n / 2 ^ 48 < (32::real)"
  proof -
    have "real_of_int n < real_of_int (2 ^ 53)"
      using hi by (simp only: of_int_less_iff)
    then show ?thesis by simp
  qed
  have "f64 (of_int n / 2 ^ 48) = of_int (rne (of_int n / 2 ^ 48 * 2 ^ 48)) / 2 ^ 48"
    using lo' hi' by (rule f64_binade4)
  then show ?thesis
    by (simp add: y rne_of_int)
qed

lemma exp_origin_binade:
  "16 \<le> exp (3 + 1 / 2 ^ 51 :: real)"
proof -
  have "0 \<le> exp (3::real) / 2 ^ 51"
    by simp
  then show ?thesis
    using exp_origin_bounds(1) exp_3_gt_17 by linarith
qed

lemma f64_exp_origin_gt: "exp 3 + 1 / 2 ^ 48 < f64 (exp (3 + 1 / 2 ^ 51))"
proof -
  define y :: real where "y = exp (3 + 1 / 2 ^ 51)"
  define t :: real where "t = exp 3"
  have near: "y - 1 / 2 ^ 49 \<le> f64 y"
    unfolding y_def using exp_origin_binade exp_origin_bounds(2) by (intro f64_binade4_near) simp_all
  have "t + t / 2 ^ 51 \<le> y"
    unfolding y_def t_def by (rule exp_origin_bounds(1))
  moreover have "17 < t"
    unfolding t_def by (rule exp_3_gt_17)
  ultimately have "t + 1 / 2 ^ 48 < y - 1 / 2 ^ 49"
    by (simp add: field_simps)
  then have "t + 1 / 2 ^ 48 < f64 y"
    using near by linarith
  then show ?thesis
    unfolding y_def t_def .
qed

lemma f64_exp_origin_idem: "f64 (f64 (exp (3 + 1 / 2 ^ 51))) = f64 (exp (3 + 1 / 2 ^ 51))"
  using exp_origin_binade exp_origin_bounds(2) by (rule f64_binade4_idem)

lemma f64_origin_exponent:
  "- f64 (f64 (0 - f64 (7205759403792794 / 2 ^ 50 * 3)) / (7205759403792794 / 2 ^ 50)) =
     3 + 1 / 2 ^ 51"
proof -
  have "f64 (0 - f64 (7205759403792794 / 2 ^ 50 * 3)) = - (5404319552844596 / 2 ^ 48)"
    unfolding f64_Rs_times_3 by (simp only: diff_0 f64_minus f64_Rs3_exact)
  moreover have "f64 (- (5404319552844596 / 2 ^ 48) / (7205759403792794 / 2 ^ 50)) =
      - (3 + 1 / 2 ^ 51)"
    using f64_quotient by (simp only: divide_minus_left f64_minus)
  ultimately show ?thesis
    by (simp only: minus_minus)
qed

lemma f64_origin_color:
  "min 1 (max (f64 (1 - f64 (0 / f64 (5 * (7205759403792794 / 2 ^ 50))))) 0) = 1"
  by (simp add: f64_5_Rs f64_0 f64_1)

lemma f64_accretion_disk_origin_6_4:
  "f64_accretion_disk [[0]] [[0]] (7205759403792794 / 2 ^ 50) =
     Inr [[f64 (exp (3 + 1 / 2 ^ 51))]]"
proof -
  define Rs :: real where "Rs = 7205759403792794 / 2 ^ 50"
  have nz: "Rs \<noteq> 0"
    by (simp add: Rs_def)
  have r: "f64_disk_r [[0]] [[0]] = Inr [[0]]"
    by (simp add: f64_disk_r_def np_ufunc2_def np_ufunc_def shape_of_def f64_0)
  have b: "f64_disk_brightness [[0]] Rs = [[f64 (exp (3 + 1 / 2 ^ 51))]]"
    unfolding f64_disk_brightness_def np_negative_def np_ufunc_def Rs_def
    by (simp only: list.map f64_origin_exponent)
  have c: "f64_disk_color [[0]] Rs = [[1]]"
    unfolding f64_disk_color_def np_clip_def np_ufunc_def Rs_def
    by (simp only: list.map f64_origin_color)
  have "f64_accretion_disk [[0]] [[0]] Rs = Inr [[f64 (f64 (exp (3 + 1 / 2 ^ 51)) * 1)]]"
    using nz by (simp add: f64_accretion_disk_def r b c np_ufunc2_def shape_of_def)
  then show ?thesis
    unfolding Rs_def by (simp only: mult_1_right f64_exp_origin_idem)
qed

lemma accretion_disk_origin_value:
  "Rs \<noteq> 0 \<Longrightarrow> accretion_disk [[0]] [[0]] Rs = Inr [[exp 3]]"
  by (simp add: accretion_disk_eq shape_of_def)

subsection \<open>Properties of accretion_disk\<close>

text \<open>
  C1 (as amended): for every positive \<open>Rs\<close> the brightness term
  \<open>exp (- ((r - Rs * 3) / Rs))\<close> is non-increasing in \<open>r\<close> everywhere: of two cells, the one
  with the larger or equal \<open>r\<close> never has the larger brightness, below \<open>3 \<sqdot> Rs\<close> as well as
  above it. The term never grows with \<open>r\<close> and has no peak at \<open>r = 3 \<sqdot> Rs\<close>; the source's
  comment calls it an exponential brightness decay.
\<close>

theorem disk_brightness_nonincreasing:
  assumes "0 < Rs" "i < length r" "j < length (r ! i)" "k < length r" "l < length (r ! k)"
    and "r ! i ! j \<le> r ! k ! l"
  shows "disk_brightness r Rs ! k ! l \<le> disk_brightness r Rs ! i ! j"
proof -
  have "disk_brightness r Rs ! k ! l = exp (- ((r ! k ! l - Rs * 3) / Rs))"
    and "disk_brightness r Rs ! i ! j = exp (- ((r ! i ! j - Rs * 3) / Rs))"
    using assms by (simp_all add: disk_brightness_eq np_ufunc_nth)
  then show ?thesis
    using brightness_cell_mono [of Rs "r ! i ! j" "r ! k ! l"] assms by simp
qed

text \<open>
  The amended statement at \<open>Rs = 1\<close> on the cells \<open>r = 0\<close> and \<open>r = 1\<close>.
\<close>

theorem disk_brightness_nonincreasing_witness:
  "(0::real) < 1 \<and> (0::nat) < length [[0, 1 :: real]] \<and> (0::nat) < length ([[0, 1 :: real]] ! 0) \<and>
   (1::nat) < length ([[0, 1 :: real]] ! 0) \<and> [[0, 1 :: real]] ! 0 ! 0 \<le> [[0, 1]] ! 0 ! 1 \<and>
   disk_brightness [[0, 1]] 1 ! 0 ! 1 \<le> disk_brightness [[0, 1]] 1 ! 0 ! 0"
  using disk_brightness_nonincreasing [of 1 0 "[[0, 1]]" 0 0 1] by simp

text \<open>
  C1 as stated fails: with \<open>Rs = 1\<close>, the cells \<open>(x, y) = (0, 0)\<close> and \<open>(1, 0)\<close> have
  \<open>r = 0\<close> and \<open>r = 1\<close>, both below \<open>3 \<sqdot> Rs\<close>, and the brightness does not grow from the
  first to the second (it falls from \<open>exp 3\<close> to \<open>exp 2\<close>).
\<close>

theorem disk_brightness_increasing_counterexample:
  "(0::real) < 1 \<and> disk_r [[0, 1]] [[0, 0]] = Inr [[0, 1]] \<and>
   [[0, 1 :: real]] ! 0 ! 0 < [[0, 1]] ! 0 ! 1 \<and> [[0, 1 :: real]] ! 0 ! 1 < 3 * 1 \<and>
   disk_brightness [[0, 1]] 1 = [[exp 3, exp 2]] \<and>
   \<not> (disk_brightness [[0, 1]] 1 ! 0 ! 0 < disk_brightness [[0, 1]] 1 ! 0 ! 1)"
  by (simp add: disk_r_def np_defs np_ufunc2_def np_ufunc_def shape_of_def disk_brightness_def)

text \<open>
  C5: for positive \<open>Rs\<close> and arrays of one shape, at a cell with \<open>x = 0\<close> and \<open>y = 0\<close> the
  code computes \<open>r = 0\<close>, brightness \<open>exp 3\<close> and color \<open>1\<close>, and returns \<open>exp 3\<close> there.
\<close>

theorem accretion_disk_origin:
  assumes "shape_of x = shape_of y" "0 < Rs" "i < length x" "j < length (x ! i)"
    and "x ! i ! j = 0" "y ! i ! j = 0"
  shows "(case disk_r x y of
            Inl e \<Rightarrow> False
          | Inr r \<Rightarrow> r ! i ! j = 0 \<and> disk_brightness r Rs ! i ! j = exp 3 \<and>
                     disk_color r Rs ! i ! j = 1) \<and>
         (case accretion_disk x y Rs of
            Inl e \<Rightarrow> False
          | Inr z \<Rightarrow> z ! i ! j = exp 3)"
proof -
  define r where "r = map2 (map2 (\<lambda>a b. sqrt (a\<^sup>2 + b\<^sup>2))) x y"
  have shp: "shape_of r = shape_of x"
    unfolding r_def using assms(1) by (rule shape_of_map2)
  have i: "i < length r" and j: "j < length (r ! i)"
    using shape_of_eq_length [OF shp] shape_of_eq_row [OF shp] assms(3,4) by simp_all
  have r0: "r ! i ! j = 0"
    unfolding r_def using assms by (simp add: map2_nth)
  have b: "disk_brightness r Rs ! i ! j = exp 3"
    using i j r0 assms(2) by (simp add: disk_brightness_eq np_ufunc_nth)
  have c: "disk_color r Rs ! i ! j = 1"
    using i j r0 by (simp add: disk_color_eq np_ufunc_nth)
  have z: "map2 (map2 (\<lambda>a b. exp (- ((sqrt (a\<^sup>2 + b\<^sup>2) - Rs * 3) / Rs)) *
             min 1 (max (1 - sqrt (a\<^sup>2 + b\<^sup>2) / (5 * Rs)) 0))) x y ! i ! j = exp 3"
    using assms by (simp add: map2_nth)
  show ?thesis
    using assms(2) r0 b c z
    by (simp add: disk_r_eq [OF assms(1)] accretion_disk_eq [OF assms(1)] r_def)
qed

text \<open>
  The origin as the second cell of a one-row grid, with \<open>Rs = 2\<close>.
\<close>

theorem accretion_disk_origin_witness:
  "shape_of [[5, 0]] = shape_of [[0, 0]] \<and> (0::real) < 2 \<and>
   (0::nat) < length [[5, 0 :: real]] \<and> (1::nat) < length ([[5, 0 :: real]] ! 0) \<and>
   [[5, 0 :: real]] ! 0 ! 1 = 0 \<and> [[0, 0 :: real]] ! 0 ! 1 = 0 \<and>
   (case disk_r [[5, 0]] [[0, 0]] of
      Inl e \<Rightarrow> False
    | Inr r \<Rightarrow> r ! 0 ! 1 = 0 \<and> disk_brightness r 2 ! 0 ! 1 = exp 3 \<and>
               disk_color r 2 ! 0 ! 1 = 1) \<and>
   (case accretion_disk [[5, 0]] [[0, 0]] 2 of
      Inl e \<Rightarrow> False
    | Inr z \<Rightarrow> z ! 0 ! 1 = exp 3)"
  using accretion_disk_origin [of "[[5, 0]]" "[[0, 0]]" 2 0 1]
  by (simp add: shape_of_def)

text \<open>
  C6: for positive \<open>Rs\<close> and arrays of one shape, at every cell whose distance
  \<open>sqrt (x\<^sup>2 + y\<^sup>2)\<close> from the origin is \<open>5 \<sqdot> Rs\<close> or more (in particular exactly \<open>5 \<sqdot> Rs\<close>),
  the color is \<open>0\<close> and the returned field is \<open>0\<close>, whatever the brightness term is.
\<close>

theorem accretion_disk_zero_beyond_5Rs:
  assumes "shape_of x = shape_of y" "0 < Rs" "i < length x" "j < length (x ! i)"
    and "5 * Rs \<le> sqrt ((x ! i ! j)\<^sup>2 + (y ! i ! j)\<^sup>2)"
  shows "(case disk_r x y of
            Inl e \<Rightarrow> False
          | Inr r \<Rightarrow> r ! i ! j = sqrt ((x ! i ! j)\<^sup>2 + (y ! i ! j)\<^sup>2) \<and>
                     disk_color r Rs ! i ! j = 0) \<and>
         (case accretion_disk x y Rs of
            Inl e \<Rightarrow> False
          | Inr z \<Rightarrow> z ! i ! j = 0)"
proof -
  define r where "r = map2 (map2 (\<lambda>a b. sqrt (a\<^sup>2 + b\<^sup>2))) x y"
  have shp: "shape_of r = shape_of x"
    unfolding r_def using assms(1) by (rule shape_of_map2)
  have i: "i < length r" and j: "j < length (r ! i)"
    using shape_of_eq_length [OF shp] shape_of_eq_row [OF shp] assms(3,4) by simp_all
  have rij: "r ! i ! j = sqrt ((x ! i ! j)\<^sup>2 + (y ! i ! j)\<^sup>2)"
    unfolding r_def using assms by (simp add: map2_nth)
  have c: "disk_color r Rs ! i ! j = 0"
    using i j rij assms(2,5) by (simp add: disk_color_eq np_ufunc_nth color_cell_zero)
  have z: "map2 (map2 (\<lambda>a b. exp (- ((sqrt (a\<^sup>2 + b\<^sup>2) - Rs * 3) / Rs)) *
             min 1 (max (1 - sqrt (a\<^sup>2 + b\<^sup>2) / (5 * Rs)) 0))) x y ! i ! j = 0"
    using assms by (simp add: map2_nth color_cell_zero)
  show ?thesis
    using assms(2) rij c z
    by (simp add: disk_r_eq [OF assms(1)] accretion_disk_eq [OF assms(1)] r_def)
qed

text \<open>
  A cell at distance exactly \<open>5 \<sqdot> Rs\<close>: \<open>(x, y) = (5, 0)\<close> with \<open>Rs = 1\<close>.
\<close>

theorem accretion_disk_zero_beyond_5Rs_witness:
  "shape_of [[0, 5]] = shape_of [[0, 0]] \<and> (0::real) < 1 \<and>
   (0::nat) < length [[0, 5 :: real]] \<and> (1::nat) < length ([[0, 5 :: real]] ! 0) \<and>
   5 * 1 = sqrt (([[0, 5]] ! 0 ! 1)\<^sup>2 + ([[0, 0]] ! 0 ! 1)\<^sup>2) \<and>
   (case disk_r [[0, 5]] [[0, 0]] of
      Inl e \<Rightarrow> False
    | Inr r \<Rightarrow> r ! 0 ! 1 = sqrt (([[0, 5]] ! 0 ! 1)\<^sup>2 + ([[0, 0]] ! 0 ! 1)\<^sup>2) \<and>
               disk_color r 1 ! 0 ! 1 = 0) \<and>
   (case accretion_disk [[0, 5]] [[0, 0]] 1 of
      Inl e \<Rightarrow> False
    | Inr z \<Rightarrow> z ! 0 ! 1 = 0)"
  using accretion_disk_zero_beyond_5Rs [of "[[0, 5]]" "[[0, 0]]" 1 0 1]
  by (simp add: shape_of_def)

text \<open>
  C7: for positive \<open>Rs\<close> and arrays of one shape, the color array has a cell for every
  cell of the input, and every cell of it lies in the closed interval from \<open>0\<close> to \<open>1\<close>.
\<close>

theorem disk_color_range:
  assumes "shape_of x = shape_of y" "0 < Rs"
  shows "case disk_r x y of
           Inl e \<Rightarrow> False
         | Inr r \<Rightarrow> shape_of (disk_color r Rs) = shape_of x \<and>
                    (\<forall>row \<in> set (disk_color r Rs). \<forall>v \<in> set row. 0 \<le> v \<and> v \<le> 1)"
proof -
  define r where "r = map2 (map2 (\<lambda>a b. sqrt (a\<^sup>2 + b\<^sup>2))) x y"
  have shp: "shape_of (disk_color r Rs) = shape_of x"
    unfolding r_def disk_color_eq using assms(1)
    by (simp add: shape_of_np_ufunc shape_of_map2)
  have rng: "0 \<le> v \<and> v \<le> 1" if "row \<in> set (disk_color r Rs)" "v \<in> set row" for row v
    using that by (auto simp: disk_color_eq np_ufunc_def)
  show ?thesis
    using shp rng by (simp add: disk_r_eq [OF assms(1)] r_def)
qed

text \<open>
  A two by two grid with \<open>Rs = 1\<close>: the colors are \<open>1\<close>, \<open>2/5\<close>, \<open>1/5\<close> and \<open>0\<close>.
\<close>

theorem disk_color_range_witness:
  "shape_of [[0, 3], [4, 9]] = shape_of [[0, 0], [0, 0]] \<and> (0::real) < 1 \<and>
   disk_r [[0, 3], [4, 9]] [[0, 0], [0, 0]] = Inr [[0, 3], [4, 9]] \<and>
   disk_color [[0, 3], [4, 9]] 1 = [[1, 2 / 5], [1 / 5, 0]] \<and>
   shape_of (disk_color [[0, 3], [4, 9]] 1) = shape_of [[0, 3], [4, 9]] \<and>
   (0::real) \<le> 1 \<and> (1::real) \<le> 1 \<and> (0::real) \<le> 2 / 5 \<and> (2 / 5 :: real) \<le> 1 \<and>
   (0::real) \<le> 1 / 5 \<and> (1 / 5 :: real) \<le> 1 \<and> (0::real) \<le> 0 \<and> (0::real) \<le> 1"
  using disk_color_range [of "[[0, 3], [4, 9]]" "[[0, 0], [0, 0]]" 1]
  by (simp add: eval_defs)

text \<open>
  C9: for positive \<open>Rs\<close> and arrays \<open>x\<close>, \<open>y\<close> of one shape, negating both arrays leaves
  the returned field unchanged, cell for cell; the field is an array of the shape of
  \<open>x\<close>.
\<close>

theorem accretion_disk_point_reflection:
  assumes "shape_of x = shape_of y" "0 < Rs"
  shows "accretion_disk (np_negative x) (np_negative y) Rs = accretion_disk x y Rs \<and>
         (case accretion_disk x y Rs of
            Inl e \<Rightarrow> False
          | Inr z \<Rightarrow> shape_of z = shape_of x)"
proof -
  have sq: "np_square (np_negative a) = np_square a" for a
    by (simp add: np_square_def np_negative_def np_ufunc_comp)
  have r: "disk_r (np_negative x) (np_negative y) = disk_r x y"
    by (simp add: disk_r_def sq)
  have same: "accretion_disk (np_negative x) (np_negative y) Rs = accretion_disk x y Rs"
    by (simp add: accretion_disk_def r)
  have "shape_of (map2 (map2 f) x y) = shape_of x" for f :: "real \<Rightarrow> real \<Rightarrow> real"
    using assms(1) by (rule shape_of_map2)
  then show ?thesis
    using same assms(2) by (simp add: accretion_disk_eq [OF assms(1)])
qed

text \<open>
  A two by two grid with cells of both signs, with \<open>Rs = 2\<close>.
\<close>

theorem accretion_disk_point_reflection_witness:
  "shape_of [[1, - 2], [0, 3]] = shape_of [[4, 0], [- 1, 2]] \<and> (0::real) < 2 \<and>
   accretion_disk (np_negative [[1, - 2], [0, 3]]) (np_negative [[4, 0], [- 1, 2]]) 2 =
     accretion_disk [[1, - 2], [0, 3]] [[4, 0], [- 1, 2]] 2 \<and>
   (case accretion_disk [[1, - 2], [0, 3]] [[4, 0], [- 1, 2]] 2 of
      Inl e \<Rightarrow> False
    | Inr z \<Rightarrow> shape_of z = shape_of [[1, - 2], [0, 3]])"
  using accretion_disk_point_reflection [of "[[1, - 2], [0, 3]]" "[[4, 0], [- 1, 2]]" 2]
  by (simp add: shape_of_def)

text \<open>
  C10 (as amended): for positive \<open>Rs\<close> and arrays of one shape, the returned field has the
  shape of the input, and every cell of it is non-negative and never exceeds the value
  the field takes at the origin for the same \<open>Rs\<close>. This holds for the formulas over the
  reals and for their float64 evaluation alike. The constant \<open>exp 3\<close> is not named: the
  origin value equals it over the reals, and only up to rounding in float64.
\<close>

theorem accretion_disk_bounded_by_origin_value:
  assumes "shape_of x = shape_of y" "0 < Rs"
  shows "(case accretion_disk x y Rs of
            Inl e \<Rightarrow> False
          | Inr z \<Rightarrow>
              shape_of z = shape_of x \<and>
              (case accretion_disk [[0]] [[0]] Rs of
                 Inl e \<Rightarrow> False
               | Inr z0 \<Rightarrow> \<forall>row \<in> set z. \<forall>v \<in> set row. 0 \<le> v \<and> v \<le> z0 ! 0 ! 0)) \<and>
         (case f64_accretion_disk x y Rs of
            Inl e \<Rightarrow> False
          | Inr z \<Rightarrow>
              shape_of z = shape_of x \<and>
              (case f64_accretion_disk [[0]] [[0]] Rs of
                 Inl e \<Rightarrow> False
               | Inr z0 \<Rightarrow> \<forall>row \<in> set z. \<forall>v \<in> set row. 0 \<le> v \<and> v \<le> z0 ! 0 ! 0))"
proof (rule conjI)
  define f where "f = (\<lambda>a b. exp (- ((sqrt (a\<^sup>2 + b\<^sup>2) - Rs * 3) / Rs)) *
                              min 1 (max (1 - sqrt (a\<^sup>2 + b\<^sup>2) / (5 * Rs)) 0))"
  have cell: "0 \<le> f a b \<and> f a b \<le> exp 3" for a b
  proof -
    let ?r = "sqrt (a\<^sup>2 + b\<^sup>2)"
    let ?br = "exp (- ((?r - Rs * 3) / Rs))"
    let ?co = "min 1 (max (1 - ?r / (5 * Rs)) 0)"
    have br: "0 \<le> ?br" "?br \<le> exp 3"
      using brightness_cell_le [OF assms(2), of ?r] by simp_all
    have co: "0 \<le> ?co" "?co \<le> 1"
      by simp_all
    have "?br * ?co \<le> exp 3 * 1"
      using br co by (intro mult_mono) simp_all
    moreover have "0 \<le> ?br * ?co"
      using br(1) co(1) by (rule mult_nonneg_nonneg)
    ultimately show ?thesis by (simp add: f_def)
  qed
  have rng: "0 \<le> v \<and> v \<le> exp 3" if h: "row \<in> set (map2 (map2 f) x y)" "v \<in> set row" for row v
  proof -
    obtain p q where "v = f p q"
      using map2_cells [OF h] by blast
    then show ?thesis using cell by simp
  qed
  have shp: "shape_of (map2 (map2 f) x y) = shape_of x"
    using assms(1) by (rule shape_of_map2)
  have z: "accretion_disk x y Rs = Inr (map2 (map2 f) x y)"
    using assms by (simp add: accretion_disk_eq f_def)
  have z0: "accretion_disk [[0]] [[0]] Rs = Inr [[exp 3]]"
    using assms(2) by (simp add: accretion_disk_origin_value)
  show "case accretion_disk x y Rs of
          Inl e \<Rightarrow> False
        | Inr z \<Rightarrow>
            shape_of z = shape_of x \<and>
            (case accretion_disk [[0]] [[0]] Rs of
               Inl e \<Rightarrow> False
             | Inr z0 \<Rightarrow> \<forall>row \<in> set z. \<forall>v \<in> set row. 0 \<le> v \<and> v \<le> z0 ! 0 ! 0)"
    using shp rng by (simp add: z z0)
next
  have nz: "Rs \<noteq> 0"
    using assms(2) by simp
  have rng: "0 \<le> v \<and> v \<le> f64_cell Rs 0 0"
    if h: "row \<in> set (map2 (map2 (f64_cell Rs)) x y)" "v \<in> set row" for row v
  proof -
    obtain p q where "v = f64_cell Rs p q"
      using map2_cells [OF h] by blast
    then show ?thesis using f64_cell_bounds [OF assms(2)] by simp
  qed
  have shp: "shape_of (map2 (map2 (f64_cell Rs)) x y) = shape_of x"
    using assms(1) by (rule shape_of_map2)
  have z: "f64_accretion_disk x y Rs = Inr (map2 (map2 (f64_cell Rs)) x y)"
    using assms(1) nz by (rule f64_accretion_disk_eq)
  have z0: "f64_accretion_disk [[0]] [[0]] Rs = Inr [[f64_cell Rs 0 0]]"
    using f64_accretion_disk_eq [of "[[0]]" "[[0]]" Rs] nz by (simp add: shape_of_def)
  show "case f64_accretion_disk x y Rs of
          Inl e \<Rightarrow> False
        | Inr z \<Rightarrow>
            shape_of z = shape_of x \<and>
            (case f64_accretion_disk [[0]] [[0]] Rs of
               Inl e \<Rightarrow> False
             | Inr z0 \<Rightarrow> \<forall>row \<in> set z. \<forall>v \<in> set row. 0 \<le> v \<and> v \<le> z0 ! 0 ! 0)"
    using shp rng by (simp add: z z0)
qed

text \<open>
  A two by two grid with \<open>Rs = 1\<close>: over the reals the field is \<open>exp 3\<close> at the origin,
  \<open>2/5\<close> at \<open>r = 3\<close> and \<open>0\<close> at \<open>r = 5\<close> and \<open>r = 9\<close>.
\<close>

theorem accretion_disk_bounded_by_origin_value_witness:
  "shape_of [[0, 3], [5, 9]] = shape_of [[0, 0], [0, 0]] \<and> (0::real) < 1 \<and>
   accretion_disk [[0, 3], [5, 9]] [[0, 0], [0, 0]] 1 = Inr [[exp 3, 2 / 5], [0, 0]] \<and>
   accretion_disk [[0]] [[0]] 1 = Inr [[exp 3]] \<and>
   shape_of [[exp 3, 2 / 5], [0, 0]] = shape_of [[0, 3], [5, 9]] \<and>
   0 \<le> exp (3::real) \<and> exp (3::real) \<le> [[exp 3]] ! 0 ! 0 \<and>
   (0::real) \<le> 2 / 5 \<and> 2 / 5 \<le> [[exp (3::real)]] ! 0 ! 0 \<and>
   (0::real) \<le> 0 \<and> 0 \<le> [[exp (3::real)]] ! 0 ! 0 \<and>
   (case f64_accretion_disk [[0, 3], [5, 9]] [[0, 0], [0, 0]] 1 of
      Inl e \<Rightarrow> False
    | Inr z \<Rightarrow>
        shape_of z = shape_of [[0, 3], [5, 9]] \<and>
        (case f64_accretion_disk [[0]] [[0]] 1 of
           Inl e \<Rightarrow> False
         | Inr z0 \<Rightarrow> \<forall>row \<in> set z. \<forall>v \<in> set row. 0 \<le> v \<and> v \<le> z0 ! 0 ! 0))"
  using accretion_disk_bounded_by_origin_value [of "[[0, 3], [5, 9]]" "[[0, 0], [0, 0]]" 1]
  by (simp add: eval_defs)

text \<open>
  C10 as stated fails: in float64, with \<open>Rs\<close> the double nearest to \<open>6.4\<close>, the exponent of
  the brightness at the origin is \<open>3 + 2\<^sup>-\<^sup>5\<^sup>1\<close>, and the returned origin cell is above \<open>exp 3\<close>.
  It is above \<open>exp 3\<close> by more than \<open>2\<^sup>-\<^sup>4\<^sup>8\<close>, the distance between neighbouring doubles
  there, so the neighbouring double below it exceeds \<open>exp 3\<close> too.
\<close>

theorem accretion_disk_exceeds_exp_3_counterexample:
  "(0::real) < 7205759403792794 / 2 ^ 50 \<and>
   f64 (64 / 10) = 7205759403792794 / 2 ^ 50 \<and>
   shape_of [[0]] = shape_of [[0]] \<and>
   f64_accretion_disk [[0]] [[0]] (7205759403792794 / 2 ^ 50) =
     Inr [[f64 (exp (3 + 1 / 2 ^ 51))]] \<and>
   exp 3 + 1 / 2 ^ 48 < f64 (exp (3 + 1 / 2 ^ 51)) \<and>
   \<not> (f64 (exp (3 + 1 / 2 ^ 51)) \<le> exp 3)"
proof -
  have "\<not> (f64 (exp (3 + 1 / 2 ^ 51)) \<le> exp 3)"
  proof
    assume "f64 (exp (3 + 1 / 2 ^ 51)) \<le> exp 3"
    moreover have "exp (3::real) < exp 3 + 1 / 2 ^ 48"
      by simp
    ultimately show False
      using f64_exp_origin_gt by linarith
  qed
  moreover have "(0::real) < 7205759403792794 / 2 ^ 50"
    by simp
  ultimately show ?thesis
    using f64_6_4 f64_accretion_disk_origin_6_4 f64_exp_origin_gt by blast
qed

end
